theory Spec2Isabelle
  imports Main
begin

section \<open>The screen upload dialog (src/components/upload-screen-dialog.tsx)\<close>

text \<open>
  The component reads a dropped file, validates a two-field form and issues a chain of
  calls to a backend table \<open>screens\<close>. The calls go through a client library whose code
  is not part of the repository; each call is modelled by its documented contract on an
  explicit table (a list of rows, in insertion order), and each call can also fail for
  a reason of its own (network, permissions), which the record \<open>faults\<close> decides.
  The client never throws: a failed call returns a response whose \<open>error\<close> is set and
  whose \<open>data\<close> is null.
\<close>

subsection \<open>JavaScript values of the version arithmetic\<close>

text \<open>
  The values that \<open>lastVersion[0]?.version + 1\<close> can meet: a number, NaN, null and
  undefined. A JavaScript number is a double; the numbers met here are whole, and
  \<open>JNum n\<close> is the double of value \<open>n\<close>. Every integer of magnitude up to \<open>2 ^ 53\<close> is a
  double; beyond, a double keeps the 53 leading bits only.
\<close>

datatype jsval = JNum int | JNaN | JNull | JUndefined

text \<open>The number of bits of a natural number.\<close>

fun bit_length :: "nat \<Rightarrow> nat" where
  "bit_length n = (if n = 0 then 0 else Suc (bit_length (n div 2)))"

text \<open>
  The double nearest to an integer, a tie going to the double whose last bit is 0:
  what reading a JSON number and what \<open>+\<close> on doubles return for an exact result
  \<open>x\<close>. Of magnitude \<open>a\<close> with more than 53 bits, the \<open>e\<close> bits below the leading 53 are
  cut off and rounded. (Doubles end near \<open>2 ^ 1024\<close>, far above what an integer column
  of the storage holds.)
\<close>

definition round_to_double :: "int \<Rightarrow> int" where
  "round_to_double x =
     (let a = nat \<bar>x\<bar>;
          e = bit_length a - 53;
          q = a div 2 ^ e;
          r = a mod 2 ^ e;
          m = (if 2 * r > 2 ^ e \<or> (2 * r = 2 ^ e \<and> odd q) then q + 1 else q)
      in sgn x * int (m * 2 ^ e))"

text \<open>\<open>v + 1\<close>: the sum as a double; null counts as 0, undefined and NaN give NaN.\<close>

fun js_plus_one :: "jsval \<Rightarrow> jsval" where
  "js_plus_one (JNum n) = JNum (round_to_double (n + 1))"
| "js_plus_one JNull = JNum 1"
| "js_plus_one JUndefined = JNaN"
| "js_plus_one JNaN = JNaN"

text \<open>\<open>v || 1\<close>: the falsy values are 0, NaN, null and undefined.\<close>

fun js_or_one :: "jsval \<Rightarrow> int" where
  "js_or_one (JNum n) = (if n = 0 then 1 else n)"
| "js_or_one JNaN = 1"
| "js_or_one JNull = 1"
| "js_or_one JUndefined = 1"

text \<open>
  \<open>const newVersion = (lastVersion && lastVersion[0]?.version + 1) || 1\<close>, where
  \<open>lastVersion\<close> is null (\<open>None\<close>) or the array of returned rows, each given by its
  \<open>version\<close> field. An array, even an empty one, is truthy; \<open>lastVersion[0]?.version\<close>
  of an empty array is undefined.
\<close>

definition newVersion :: "jsval list option \<Rightarrow> int" where
  "newVersion lastVersion =
     js_or_one (case lastVersion of
                  None \<Rightarrow> JNull
                | Some rows \<Rightarrow> js_plus_one (case rows of [] \<Rightarrow> JUndefined | r # _ \<Rightarrow> r))"

subsection \<open>The table and the state of the dialog\<close>

text \<open>
  Modelled from the spec: the row type of the relation \<open>screens\<close> (the type
  \<open>Database\<close> of \<open>@/types/supabase\<close> is not in the sources). Columns
  \<open>id, name, html_file, version, changes\<close>; \<open>id\<close> is a surrogate key generated by
  the storage, \<open>version\<close> an integer.
\<close>

record screen =
  screen_id :: nat
  name :: string
  html_file :: string
  version :: int
  changes :: string

text \<open>
  The validated form values \<open>{name, file}\<close>. A string is the list of the units that the
  source's \<open>length\<close> counts.
\<close>

record form_values =
  form_name :: string
  form_file :: string

datatype backend_error = PostgrestError string | FileError string

datatype request =
    Select_id_eq_name string
  | Select_version_desc_limit1
  | Insert_screen string string int string
  | Update_html_file_eq_id nat string

datatype log_entry = Console_log string | Console_error backend_error

text \<open>
  The state: the backend table and the requests sent to it so far, the developer console,
  the number of \<open>router.refresh()\<close> calls, and the component's state (\<open>dialogOpen\<close>,
  \<open>svgFile\<close>, the form's current values and its validation messages by field).
\<close>

record world =
  table :: "screen list"
  requests :: "request list"
  console :: "log_entry list"
  refreshes :: nat
  dialogOpen :: bool
  svgFile :: "(string \<times> string) option"
  form :: form_values
  form_errors :: "(string \<times> string) list"

text \<open>For each of the four kinds of call, the error it fails with, if it fails.\<close>

record faults =
  lookup_fault :: "backend_error option"
  version_fault :: "backend_error option"
  insert_fault :: "backend_error option"
  update_fault :: "backend_error option"

record 'a response =
  data :: 'a
  error :: "backend_error option"

definition no_faults :: faults where
  "no_faults = \<lparr>lookup_fault = None, version_fault = None, insert_fault = None,
                 update_fault = None\<rparr>"

text \<open>
  The component's state when it is mounted over a table: \<open>useState(false)\<close> for
  \<open>dialogOpen\<close>, no \<open>svgFile\<close>, the form's \<open>defaultValues\<close>.
\<close>

definition initial_state :: "screen list \<Rightarrow> world" where
  "initial_state tbl =
     \<lparr>table = tbl, requests = [], console = [], refreshes = 0, dialogOpen = False,
      svgFile = None, form = \<lparr>form_name = '''', form_file = ''''\<rparr>, form_errors = []\<rparr>"

subsection \<open>The backend calls\<close>

text \<open>
  \<open>maybeSingle()\<close>: no row gives null, one row gives that row, and more than one row
  is an error (code PGRST116) with null data.
\<close>

definition maybeSingle :: "'a list \<Rightarrow> 'a option response" where
  "maybeSingle rows =
     (case rows of
        [] \<Rightarrow> \<lparr>data = None, error = None\<rparr>
      | [r] \<Rightarrow> \<lparr>data = Some r, error = None\<rparr>
      | _ # _ # _ \<Rightarrow> \<lparr>data = None, error = Some (PostgrestError ''PGRST116'')\<rparr>)"

definition record_request :: "request \<Rightarrow> world \<Rightarrow> world" where
  "record_request q w = w\<lparr>requests := requests w @ [q]\<rparr>"

text \<open>\<open>from('screens').select('id').eq('name', n).maybeSingle()\<close>\<close>

definition select_id_eq_name :: "faults \<Rightarrow> string \<Rightarrow> world \<Rightarrow> nat option response \<times> world" where
  "select_id_eq_name f n w =
     (case lookup_fault f of
        Some e \<Rightarrow> \<lparr>data = None, error = Some e\<rparr>
      | None \<Rightarrow> maybeSingle (map screen_id (filter (\<lambda>r. name r = n) (table w))),
      record_request (Select_id_eq_name n) w)"

text \<open>
  \<open>from('screens').select('version').order('version', {ascending: false}).limit(1)\<close>;
  the storage orders the stored integers, the client reads the returned one as a
  JavaScript number.
\<close>

definition select_version_desc_limit1 :: "faults \<Rightarrow> world \<Rightarrow> jsval list option response \<times> world" where
  "select_version_desc_limit1 f w =
     (case version_fault f of
        Some e \<Rightarrow> \<lparr>data = None, error = Some e\<rparr>
      | None \<Rightarrow> \<lparr>data = Some (map (\<lambda>v. JNum (round_to_double v))
                                (take 1 (rev (sort (map version (table w)))))),
                 error = None\<rparr>,
      record_request Select_version_desc_limit1 w)"

text \<open>The storage gives a new row an id that no row of the table has.\<close>

definition fresh_id :: "screen list \<Rightarrow> nat" where
  "fresh_id tbl = Suc (fold max (map screen_id tbl) 0)"

text \<open>\<open>from('screens').insert({name, html_file, version, changes})\<close>\<close>

definition insert_screen ::
  "faults \<Rightarrow> string \<Rightarrow> string \<Rightarrow> int \<Rightarrow> string \<Rightarrow> world \<Rightarrow> unit response \<times> world" where
  "insert_screen f n h v c w =
     (let w' = record_request (Insert_screen n h v c) w in
      case insert_fault f of
        Some e \<Rightarrow> (\<lparr>data = (), error = Some e\<rparr>, w')
      | None \<Rightarrow>
          (\<lparr>data = (), error = None\<rparr>,
           w'\<lparr>table := table w' @
                  [\<lparr>screen_id = fresh_id (table w'), name = n, html_file = h, version = v,
                    changes = c\<rparr>]\<rparr>))"

text \<open>\<open>from('screens').update({html_file: h}).eq('id', i)\<close>\<close>

definition update_html_file_eq_id ::
  "faults \<Rightarrow> string \<Rightarrow> nat \<Rightarrow> world \<Rightarrow> unit response \<times> world" where
  "update_html_file_eq_id f h i w =
     (let w' = record_request (Update_html_file_eq_id i h) w in
      case update_fault f of
        Some e \<Rightarrow> (\<lparr>data = (), error = Some e\<rparr>, w')
      | None \<Rightarrow>
          (\<lparr>data = (), error = None\<rparr>,
           w'\<lparr>table := map (\<lambda>r. if screen_id r = i then r\<lparr>html_file := h\<rparr> else r)
                            (table w')\<rparr>))"

definition console_log :: "string \<Rightarrow> world \<Rightarrow> world" where
  "console_log s w = w\<lparr>console := console w @ [Console_log s]\<rparr>"

definition console_error :: "backend_error \<Rightarrow> world \<Rightarrow> world" where
  "console_error e w = w\<lparr>console := console w @ [Console_error e]\<rparr>"

subsection \<open>The submission\<close>

text \<open>
  A function that can throw returns \<open>Inl\<close> of the error thrown, with the state reached
  at the throw, or \<open>Inr\<close> of its result. A response is an object, never undefined, so
  of the tests \<open>!versionResponse || versionResponse.error\<close> and
  \<open>!updateResponse || updateResponse.error\<close> only the second half can hold. The console
  entries stand for the objects that the source logs.
\<close>

definition createNewVersion ::
  "faults \<Rightarrow> nat \<Rightarrow> form_values \<Rightarrow> world \<Rightarrow> (backend_error + unit response) \<times> world" where
  "createNewVersion f screenId vals w =
     (let (versionRead, w1) = select_version_desc_limit1 f w;
          lastVersion = data versionRead;
          (resp, w2) = insert_screen f (form_name vals) (form_file vals)
                         (newVersion lastVersion) ''TODO: Specify the changes here'' w1
      in case error resp of
           Some e \<Rightarrow> (Inl e, w2)
         | None \<Rightarrow> (Inr resp, console_log ''newVersion'' w2))"

definition updateExistingScreen ::
  "faults \<Rightarrow> form_values \<Rightarrow> nat \<Rightarrow> world \<Rightarrow> (backend_error + unit) \<times> world" where
  "updateExistingScreen f vals screenId w =
     (case createNewVersion f screenId vals w of
        (Inl e, w1) \<Rightarrow> (Inl e, w1)
      | (Inr versionResponse, w1) \<Rightarrow>
          (case error versionResponse of
             Some e \<Rightarrow> (Inl e, w1)
           | None \<Rightarrow>
               (let (updateResponse, w2) = update_html_file_eq_id f (form_file vals) screenId w1
                in case error updateResponse of
                     Some e \<Rightarrow> (Inl e, w2)
                   | None \<Rightarrow> (Inr (), console_log ''data'' w2))))"

definition createNewScreen ::
  "faults \<Rightarrow> form_values \<Rightarrow> world \<Rightarrow> (backend_error + unit) \<times> world" where
  "createNewScreen f vals w =
     (let (resp, w1) = insert_screen f (form_name vals) (form_file vals) 1 '''' w
      in case error resp of
           Some e \<Rightarrow> (Inl e, w1)
         | None \<Rightarrow> (Inr (), console_log ''data, status'' w1))"

text \<open>
  \<open>onSubmit\<close>: only \<open>data\<close> of the lookup is read (its \<open>error\<close> is dropped); a throw of
  either branch skips \<open>router.refresh()\<close> and \<open>setDialogOpen(false)\<close> and is logged.
\<close>

definition onSubmit :: "faults \<Rightarrow> form_values \<Rightarrow> world \<Rightarrow> world" where
  "onSubmit f vals w =
     (let (lookup, w1) = select_id_eq_name f (form_name vals) w;
          existingScreen = data lookup
      in case (case existingScreen of
                 Some i \<Rightarrow> updateExistingScreen f vals i w1
               | None \<Rightarrow> createNewScreen f vals w1) of
           (Inr u, w2) \<Rightarrow> w2\<lparr>refreshes := Suc (refreshes w2), dialogOpen := False\<rparr>
         | (Inl e, w2) \<Rightarrow> console_error e w2)"

subsection \<open>Validation of the form\<close>

text \<open>
  \<open>formSchema\<close>: \<open>z.string().min(2, {message})\<close> on each field reports its message when
  the string has fewer than 2 characters. The result lists the issues as pairs of field
  and message.
\<close>

definition formSchema :: "form_values \<Rightarrow> (string \<times> string) list" where
  "formSchema vals =
     (if length (form_name vals) < 2
      then [(''name'', ''Name must be at least 2 characters.'')] else []) @
     (if length (form_file vals) < 2
      then [(''file'', ''A file is necessary.'')] else [])"

text \<open>
  \<open>form.handleSubmit(onSubmit)\<close> with \<open>zodResolver(formSchema)\<close>: the current values are
  validated; \<open>onSubmit\<close> runs only when there is no issue, otherwise the issues become
  the form's messages.
\<close>

definition handleSubmit :: "faults \<Rightarrow> world \<Rightarrow> world" where
  "handleSubmit f w =
     (case formSchema (form w) of
        [] \<Rightarrow> onSubmit f (form w) (w\<lparr>form_errors := []\<rparr>)
      | i # issues \<Rightarrow> w\<lparr>form_errors := i # issues\<rparr>)"

subsection \<open>Reading the dropped file\<close>

text \<open>
  A file as the component sees it: its name, MIME type and size in bytes, and what
  \<open>FileReader.readAsText\<close> does with it: load a string, load something that is not a
  string, or fail.
\<close>

datatype read_outcome = Read_text string | Read_other | Read_failed backend_error

record File =
  file_name :: string
  file_type :: string
  file_size :: nat
  file_read :: read_outcome

definition readSvgFile :: "File \<Rightarrow> backend_error + string" where
  "readSvgFile file =
     (case file_read file of
        Read_text s \<Rightarrow> Inr s
      | Read_other \<Rightarrow> Inl (FileError ''File content could not be read'')
      | Read_failed e \<Rightarrow> Inl e)"

text \<open>\<open>handleFileChange\<close>; its argument is \<open>acceptedFiles[0]\<close>, undefined for no file.\<close>

definition handleFileChange :: "File option \<Rightarrow> world \<Rightarrow> world" where
  "handleFileChange fo w =
     (case fo of
        None \<Rightarrow> w
      | Some file \<Rightarrow>
          (case readSvgFile file of
             Inr svgContent \<Rightarrow>
               (console_log ''file'' (w\<lparr>svgFile := Some (file_name file, svgContent)\<rparr>))
                 \<lparr>form := (form w)\<lparr>form_file := svgContent\<rparr>\<rparr>
           | Inl e \<Rightarrow> console_error e w))"

subsection \<open>The drop zone\<close>

text \<open>The options given to \<open>useDropzone\<close>.\<close>

record dropzone_options =
  accept :: "(string \<times> string list) list"
  maxFiles :: nat
  maxSize :: nat

definition options :: dropzone_options where
  "options = \<lparr>accept = [(''image/svg+xml'', [''.svg''])], maxFiles = 1,
               maxSize = 1024 * 1024 * 10\<rparr>"

text \<open>
  The drop zone is a library; what follows is its contract. The \<open>accept\<close> option is
  flattened to the list of its MIME types and extensions, and a file passes when one
  entry matches: an entry starting with a dot against the end of the file's name, any
  other entry against the file's MIME type, both in lower case; a file that the browser
  reports as \<open>application/x-moz-file\<close> passes too. A file passes the size check when
  it is not larger than \<open>maxSize\<close>. When more files pass than \<open>maxFiles\<close>, all of them
  are rejected.

  Before these checks the drop zone completes a file that comes without a MIME type:
  when its name has an extension (the part after the last dot, in lower case) that the
  library's table of common types knows, the file gets the type of the table, and it is
  this file that the checks and the handler see. The table is the library's; it is the
  parameter \<open>common_types\<close> here, from an extension to its type.
\<close>

definition to_lower :: "string \<Rightarrow> string" where
  "to_lower s =
     map (\<lambda>c. let n = (of_char c :: nat) in if 65 \<le> n \<and> n \<le> 90 then char_of (n + 32) else c) s"

definition extension :: "string \<Rightarrow> string option" where
  "extension n =
     (if CHR ''.'' \<in> set n
      then Some (to_lower (rev (takeWhile (\<lambda>c. c \<noteq> CHR ''.'') (rev n))))
      else None)"

definition withMimeType :: "(string \<Rightarrow> string option) \<Rightarrow> File \<Rightarrow> File" where
  "withMimeType common_types file =
     (if file_type file = ''''
      then (case extension (file_name file) of
              None \<Rightarrow> file
            | Some ext \<Rightarrow>
                (case common_types ext of
                   None \<Rightarrow> file
                 | Some t \<Rightarrow> file\<lparr>file_type := t\<rparr>))
      else file)"

definition ends_with :: "string \<Rightarrow> string \<Rightarrow> bool" where
  "ends_with s suf = (length suf \<le> length s \<and> drop (length s - length suf) s = suf)"

definition accept_attr :: "dropzone_options \<Rightarrow> string list" where
  "accept_attr opts = concat (map (\<lambda>(mime, exts). mime # exts) (accept opts))"

definition matches_accept :: "File \<Rightarrow> string list \<Rightarrow> bool" where
  "matches_accept file types =
     list_ex (\<lambda>t. let validType = to_lower t in
                  if take 1 validType = ''.''
                  then ends_with (to_lower (file_name file)) validType
                  else to_lower (file_type file) = validType) types"

definition type_accepted :: "dropzone_options \<Rightarrow> File \<Rightarrow> bool" where
  "type_accepted opts file =
     (file_type file = ''application/x-moz-file'' \<or> matches_accept file (accept_attr opts))"

definition size_accepted :: "dropzone_options \<Rightarrow> File \<Rightarrow> bool" where
  "size_accepted opts file = (\<not> file_size file > maxSize opts)"

definition acceptedFiles ::
  "dropzone_options \<Rightarrow> (string \<Rightarrow> string option) \<Rightarrow> File list \<Rightarrow> File list" where
  "acceptedFiles opts common_types files =
     (let passed = filter (\<lambda>file. type_accepted opts file \<and> size_accepted opts file)
                     (map (withMimeType common_types) files)
      in if length passed > maxFiles opts then [] else passed)"

text \<open>\<open>onDrop: (acceptedFiles) => handleFileChange(acceptedFiles[0])\<close>\<close>

definition onDrop :: "(string \<Rightarrow> string option) \<Rightarrow> File list \<Rightarrow> world \<Rightarrow> world" where
  "onDrop common_types files w =
     handleFileChange
       (case acceptedFiles options common_types files of [] \<Rightarrow> None | f # _ \<Rightarrow> Some f) w"

subsection \<open>States used in the examples\<close>

text \<open>
  \<open>setDialogOpen\<close>, and the dialog opened over a table. \<open>home_once\<close> is the table after
  one upload of the name \<open>home\<close> into an empty table, \<open>home_twice\<close> the table after a
  second upload of that name: the first row is the original one, the second the version
  row of the second upload. \<open>refused\<close> is an error of a backend call.
\<close>

definition setDialogOpen :: "bool \<Rightarrow> world \<Rightarrow> world" where
  "setDialogOpen b w = w\<lparr>dialogOpen := b\<rparr>"

definition opened :: "screen list \<Rightarrow> world" where
  "opened tbl = setDialogOpen True (initial_state tbl)"

definition home_once :: "screen list" where
  "home_once =
     [\<lparr>screen_id = 1, name = ''home'', html_file = ''<svg>1</svg>'', version = 1,
       changes = ''''\<rparr>]"

definition home_twice :: "screen list" where
  "home_twice =
     [\<lparr>screen_id = 1, name = ''home'', html_file = ''<svg>2</svg>'', version = 1,
       changes = ''''\<rparr>,
      \<lparr>screen_id = 2, name = ''home'', html_file = ''<svg>2</svg>'', version = 2,
       changes = ''TODO: Specify the changes here''\<rparr>]"

definition upload :: "string \<Rightarrow> string \<Rightarrow> form_values" where
  "upload n h = \<lparr>form_name = n, form_file = h\<rparr>"

definition refused :: backend_error where
  "refused = PostgrestError ''42501''"

text \<open>An excerpt of the table of common types, enough for the files of the examples.\<close>

definition svg_and_png :: "string \<Rightarrow> string option" where
  "svg_and_png = map_of [(''svg'', ''image/svg+xml''), (''png'', ''image/png'')]"

section \<open>Auxiliary facts\<close>

subsection \<open>Rounding to a double\<close>

declare bit_length.simps [simp del]

lemma bit_length_0 [simp]: "bit_length 0 = 0"
  by (simp add: bit_length.simps)

lemma bit_length_le: "a < 2 ^ k \<Longrightarrow> bit_length a \<le> k"
proof (induction k arbitrary: a)
  case 0
  then show ?case by simp
next
  case (Suc k)
  show ?case
  proof (cases "a = 0")
    case True
    then show ?thesis by simp
  next
    case False
    from Suc.prems have "a div 2 < 2 ^ k" by simp
    then have "bit_length (a div 2) \<le> k" by (rule Suc.IH)
    then show ?thesis using False by (subst bit_length.simps) simp
  qed
qed

lemma bit_length_eq: "2 ^ k \<le> a \<Longrightarrow> a < 2 ^ Suc k \<Longrightarrow> bit_length a = Suc k"
proof (induction k arbitrary: a)
  case 0
  then have "a = 1" by simp
  then show ?case by (simp add: bit_length.simps)
next
  case (Suc k)
  then have "2 ^ k \<le> a div 2" and "a div 2 < 2 ^ Suc k" by simp_all
  then have "bit_length (a div 2) = Suc k" by (rule Suc.IH)
  moreover have "a \<noteq> 0" using Suc.prems by auto
  ultimately show ?case by (subst bit_length.simps) simp
qed

lemma bit_length_at_limit: "bit_length 9007199254740992 = 54"
  using bit_length_eq [of 53 9007199254740992] by simp

lemma bit_length_above_limit: "bit_length 9007199254740993 = 54"
  using bit_length_eq [of 53 9007199254740993] by simp

lemma round_to_double_exact:
  assumes "\<bar>x\<bar> \<le> 2 ^ 53"
  shows "round_to_double x = x"
proof (cases "\<bar>x\<bar> < 2 ^ 53")
  case True
  then have "nat \<bar>x\<bar> < 2 ^ 53" by simp
  then have "bit_length (nat \<bar>x\<bar>) - 53 = 0" using bit_length_le [of "nat \<bar>x\<bar>" 53] by simp
  then show ?thesis by (simp add: round_to_double_def Let_def mult_sgn_abs)
next
  case False
  with assms have a: "nat \<bar>x\<bar> = 9007199254740992" by simp
  then have "\<bar>x\<bar> = 9007199254740992" by linarith
  then have "sgn x * 9007199254740992 = x" using mult_sgn_abs [of x] by simp
  then show ?thesis by (simp add: round_to_double_def Let_def a bit_length_at_limit)
qed

lemma round_to_double_above: "round_to_double 9007199254740993 = 9007199254740992"
  by (simp add: round_to_double_def Let_def bit_length_above_limit)

lemma bit_length_lower: "a \<noteq> 0 \<Longrightarrow> 2 ^ (bit_length a - 1) \<le> a"
proof (induction a rule: bit_length.induct)
  case (1 n)
  show ?case
  proof (cases "n div 2 = 0")
    case True
    with 1 have "n = 1" by (simp add: div_eq_0_iff)
    then show ?thesis by (simp add: bit_length.simps)
  next
    case False
    with 1 have ih: "2 ^ (bit_length (n div 2) - 1) \<le> n div 2" by simp
    have pos: "bit_length (n div 2) \<noteq> 0" using False by (subst bit_length.simps) simp
    have "bit_length n = Suc (bit_length (n div 2))" using 1(2) by (subst bit_length.simps) simp
    then have "2 ^ (bit_length n - 1) = 2 * 2 ^ (bit_length (n div 2) - 1)"
      using pos by (cases "bit_length (n div 2)") simp_all
    also have "\<dots> \<le> 2 * (n div 2)" using ih by simp
    also have "\<dots> \<le> n" by simp
    finally show ?thesis .
  qed
qed

lemma round_to_double_0_iff: "round_to_double x = 0 \<longleftrightarrow> x = 0"
proof (cases "x = 0")
  case True
  then show ?thesis by (simp add: round_to_double_def)
next
  case False
  define a where "a = nat \<bar>x\<bar>"
  define e where "e = bit_length a - 53"
  have a0: "a \<noteq> 0" using False by (simp add: a_def)
  have "(2::nat) ^ e \<le> 2 ^ (bit_length a - 1)" by (rule power_increasing) (simp_all add: e_def)
  also have "\<dots> \<le> a" using a0 by (rule bit_length_lower)
  finally have "a div 2 ^ e \<noteq> 0" by (simp add: div_eq_0_iff)
  then have "round_to_double x \<noteq> 0"
    using False
    by (simp add: round_to_double_def Let_def a_def [symmetric] e_def [symmetric] sgn_if)
  then show ?thesis using False by simp
qed

subsection \<open>The highest version and the fresh id\<close>







subsection \<open>The two paths of a submission\<close>

lemmas backend_defs = select_id_eq_name_def select_version_desc_limit1_def insert_screen_def
  update_html_file_eq_id_def record_request_def console_log_def console_error_def

lemmas submit_defs = onSubmit_def updateExistingScreen_def createNewVersion_def
  createNewScreen_def

lemma maybeSingle_error_data: "error (maybeSingle rows) \<noteq> None \<Longrightarrow> data (maybeSingle rows) = None"
  by (simp add: maybeSingle_def split: list.splits)

lemma maybeSingle_Nil [simp]: "maybeSingle [] = \<lparr>data = None, error = None\<rparr>"
  by (simp add: maybeSingle_def)

lemma lookup_absent:
  "filter (\<lambda>r. name r = n) (table w) = [] \<Longrightarrow> data (fst (select_id_eq_name f n w)) = None"
  by (simp add: select_id_eq_name_def split: option.splits)

lemma lookup_error_data:
  "error (fst (select_id_eq_name f n w)) \<noteq> None \<Longrightarrow> data (fst (select_id_eq_name f n w)) = None"
  by (auto simp: select_id_eq_name_def maybeSingle_error_data split: option.splits)

lemma snd_lookup [simp]: "snd (select_id_eq_name f n w) = record_request (Select_id_eq_name n) w"
  by (simp add: select_id_eq_name_def)

lemma onSubmit_create:
  assumes "data (fst (select_id_eq_name f (form_name vals) w)) = None"
  shows "onSubmit f vals w =
     (case insert_fault f of
        Some e \<Rightarrow> w\<lparr>requests := requests w @ [Select_id_eq_name (form_name vals),
                       Insert_screen (form_name vals) (form_file vals) 1 ''''],
                     console := console w @ [Console_error e]\<rparr>
      | None \<Rightarrow> w\<lparr>table := table w @ [\<lparr>screen_id = fresh_id (table w), name = form_name vals,
                       html_file = form_file vals, version = 1, changes = ''''\<rparr>],
                   requests := requests w @ [Select_id_eq_name (form_name vals),
                       Insert_screen (form_name vals) (form_file vals) 1 ''''],
                   console := console w @ [Console_log ''data, status''],
                   refreshes := Suc (refreshes w), dialogOpen := False\<rparr>)"
proof -
  obtain lk w1 where l: "select_id_eq_name f (form_name vals) w = (lk, w1)" by fastforce
  have w1: "w1 = record_request (Select_id_eq_name (form_name vals)) w"
    using snd_lookup[of f "form_name vals" w] l by simp
  have d: "data lk = None" using assms l by simp
  show ?thesis
    by (simp add: onSubmit_def l d w1 createNewScreen_def insert_screen_def record_request_def
        console_log_def console_error_def Let_def split: option.splits)
qed


lemma onSubmit_update:
  assumes "data (fst (select_id_eq_name f (form_name vals) w)) = Some i"
  shows "onSubmit f vals w =
     (let v = newVersion (data (fst (select_version_desc_limit1 f w)));
          reqs = requests w @ [Select_id_eq_name (form_name vals), Select_version_desc_limit1,
                   Insert_screen (form_name vals) (form_file vals) v
                     ''TODO: Specify the changes here''];
          row = \<lparr>screen_id = fresh_id (table w), name = form_name vals,
                  html_file = form_file vals, version = v,
                  changes = ''TODO: Specify the changes here''\<rparr>
      in case insert_fault f of
           Some e \<Rightarrow> w\<lparr>requests := reqs, console := console w @ [Console_error e]\<rparr>
         | None \<Rightarrow>
            (case update_fault f of
               Some e \<Rightarrow> w\<lparr>table := table w @ [row],
                            requests := reqs @ [Update_html_file_eq_id i (form_file vals)],
                            console := console w @ [Console_log ''newVersion'', Console_error e]\<rparr>
             | None \<Rightarrow> w\<lparr>table := map (\<lambda>r. if screen_id r = i then r\<lparr>html_file := form_file vals\<rparr> else r)
                                         (table w @ [row]),
                          requests := reqs @ [Update_html_file_eq_id i (form_file vals)],
                          console := console w @ [Console_log ''newVersion'', Console_log ''data''],
                          refreshes := Suc (refreshes w), dialogOpen := False\<rparr>))"
proof -
  obtain lk w1 where l: "select_id_eq_name f (form_name vals) w = (lk, w1)" by fastforce
  have w1: "w1 = record_request (Select_id_eq_name (form_name vals)) w"
    using snd_lookup[of f "form_name vals" w] l by simp
  have d: "data lk = Some i" using assms l by simp
  show ?thesis
    by (simp add: onSubmit_def l d w1 updateExistingScreen_def createNewVersion_def
        select_version_desc_limit1_def update_html_file_eq_id_def
        insert_screen_def record_request_def
        console_log_def console_error_def Let_def split: option.splits)
qed






lemmas example_defs = setDialogOpen_def opened_def initial_state_def upload_def
  no_faults_def fresh_id_def

section \<open>The properties of the specification\<close>

subsection \<open>The version number\<close>

text \<open>
  C10, as amended. In \<open>createNewVersion\<close> the new version number is 1 when the version
  query gives null or an empty list, and when the successor is falsy: the highest
  stored version is -1 (successor 0), or the version is missing or not a number
  (successor NaN). Otherwise it is the returned maximum plus one as the addition of
  JavaScript numbers gives it, the nearest double: for a maximum from \<open>- 2 ^ 53\<close> to
  \<open>2 ^ 53 - 1\<close> that is exactly the maximum plus one. The insert that
  \<open>createNewVersion\<close> sends carries this number.
\<close>

theorem newVersion_fallback:
  "newVersion None = 1 \<and> newVersion (Some []) = 1 \<and>
   newVersion (Some (JNum (- 1) # rest)) = 1 \<and>
   newVersion (Some (JUndefined # rest)) = 1 \<and>
   newVersion (Some (JNaN # rest)) = 1 \<and>
   (n \<noteq> - 1 \<longrightarrow> newVersion (Some (JNum n # rest)) = round_to_double (n + 1)) \<and>
   (n \<noteq> - 1 \<and> - (2 ^ 53) \<le> n \<and> n < 2 ^ 53 \<longrightarrow>
      newVersion (Some (JNum n # rest)) = n + 1) \<and>
   requests (snd (createNewVersion f screenId vals w)) =
     requests w @ [Select_version_desc_limit1,
       Insert_screen (form_name vals) (form_file vals)
         (newVersion (data (fst (select_version_desc_limit1 f w))))
         ''TODO: Specify the changes here'']"
proof -
  have sum: "n \<noteq> - 1 \<longrightarrow> newVersion (Some (JNum n # rest)) = round_to_double (n + 1)"
    by (simp add: newVersion_def round_to_double_0_iff)
  have "- (2 ^ 53) \<le> n \<and> n < 2 ^ 53 \<longrightarrow> round_to_double (n + 1) = n + 1"
    by (auto intro: round_to_double_exact)
  with sum have exact: "n \<noteq> - 1 \<and> - (2 ^ 53) \<le> n \<and> n < 2 ^ 53 \<longrightarrow>
      newVersion (Some (JNum n # rest)) = n + 1" by simp
  have fallback: "newVersion None = 1 \<and> newVersion (Some []) = 1 \<and>
      newVersion (Some (JNum (- 1) # rest)) = 1 \<and>
      newVersion (Some (JUndefined # rest)) = 1 \<and>
      newVersion (Some (JNaN # rest)) = 1"
    by (simp add: newVersion_def round_to_double_0_iff)
  have sent: "requests (snd (createNewVersion f screenId vals w)) =
     requests w @ [Select_version_desc_limit1,
       Insert_screen (form_name vals) (form_file vals)
         (newVersion (data (fst (select_version_desc_limit1 f w))))
         ''TODO: Specify the changes here'']"
    by (simp add: createNewVersion_def select_version_desc_limit1_def
        insert_screen_def record_request_def console_log_def Let_def split: option.splits)
  show ?thesis using sum exact fallback sent by blast
qed

theorem newVersion_fallback_witness:
  "(4::int) \<noteq> - 1 \<and> - (2 ^ 53) \<le> (4::int) \<and> (4::int) < 2 ^ 53 \<and>
   newVersion (Some [JNum 4]) = 5"
  using newVersion_fallback [of "[]" 4] by (simp add: round_to_double_exact)

text \<open>
  C10 as stated fails: the returned maximum \<open>2 ^ 53\<close> is not -1, and the new version
  is \<open>2 ^ 53\<close> again, not the maximum plus one.
\<close>

theorem successor_of_largest_exact_counterexample:
  "(2 ^ 53 :: int) \<noteq> - 1 \<and> newVersion (Some [JNum (2 ^ 53)]) = 2 ^ 53 \<and>
   (2 ^ 53 :: int) \<noteq> 2 ^ 53 + 1"
  by (simp add: newVersion_def round_to_double_above)

subsection \<open>Creating the first version\<close>

text \<open>
  C2. A submission whose name matches no row (the rows of that name are none) sends the lookup and then exactly one
  insert, of a row with version 1 and empty \<open>changes\<close>, and no update. When the backend
  matches_accept the insert the table is the old table followed by that row; when it refuses,
  the table is unchanged.
\<close>

theorem absent_name_creates_first_version:
  assumes "filter (\<lambda>r. name r = form_name vals) (table w) = []"
  shows "requests (onSubmit f vals w) =
           requests w @ [Select_id_eq_name (form_name vals),
                         Insert_screen (form_name vals) (form_file vals) 1 ''''] \<and>
         (insert_fault f = None \<longrightarrow>
            table (onSubmit f vals w) =
              table w @ [\<lparr>screen_id = fresh_id (table w), name = form_name vals,
                          html_file = form_file vals, version = 1, changes = ''''\<rparr>]) \<and>
         (insert_fault f \<noteq> None \<longrightarrow> table (onSubmit f vals w) = table w)"
  using onSubmit_create [OF lookup_absent [OF assms], of f] by (auto split: option.splits)

theorem absent_name_creates_first_version_witness:
  "filter (\<lambda>r. name r = form_name \<lparr>form_name = ''cart'', form_file = ''<svg>c</svg>''\<rparr>)
     (table (initial_state [\<lparr>screen_id = 1, name = ''home'', html_file = ''<svg/>'',
                             version = 1, changes = ''''\<rparr>])) = [] \<and>
   insert_fault no_faults = None \<and>
   table (onSubmit no_faults \<lparr>form_name = ''cart'', form_file = ''<svg>c</svg>''\<rparr>
           (initial_state [\<lparr>screen_id = 1, name = ''home'', html_file = ''<svg/>'',
                            version = 1, changes = ''''\<rparr>])) =
     [\<lparr>screen_id = 1, name = ''home'', html_file = ''<svg/>'', version = 1, changes = ''''\<rparr>,
      \<lparr>screen_id = 2, name = ''cart'', html_file = ''<svg>c</svg>'', version = 1,
       changes = ''''\<rparr>]"
  using absent_name_creates_first_version
    [where w = "initial_state [\<lparr>screen_id = 1, name = ''home'', html_file = ''<svg/>'',
                                version = 1, changes = ''''\<rparr>]"
       and vals = "\<lparr>form_name = ''cart'', form_file = ''<svg>c</svg>''\<rparr>"
       and f = no_faults]
  by (simp add: initial_state_def no_faults_def fresh_id_def)


subsection \<open>A failed lookup\<close>

text \<open>
  C7. When the lookup by name returns an error (a failure of the call, or several rows
  of that name, which \<open>maybeSingle\<close> reports as an error), its data is null, the error
  is neither thrown nor logged, and the submission takes the path of \<open>createNewScreen\<close>:
  one insert of a row with version 1 and nothing else. When the insert succeeds the
  row is appended, the console only gets the log line of \<open>createNewScreen\<close>, the view is
  refreshed and the dialog closed; when the insert fails, it is the insert's error that
  is logged.
\<close>

theorem lookup_error_takes_create_path:
  assumes "error (fst (select_id_eq_name f (form_name vals) w)) \<noteq> None"
  shows "data (fst (select_id_eq_name f (form_name vals) w)) = None \<and>
         requests (onSubmit f vals w) =
           requests w @ [Select_id_eq_name (form_name vals),
                         Insert_screen (form_name vals) (form_file vals) 1 ''''] \<and>
         (insert_fault f = None \<longrightarrow>
            table (onSubmit f vals w) =
              table w @ [\<lparr>screen_id = fresh_id (table w), name = form_name vals,
                          html_file = form_file vals, version = 1, changes = ''''\<rparr>] \<and>
            console (onSubmit f vals w) = console w @ [Console_log ''data, status''] \<and>
            refreshes (onSubmit f vals w) = Suc (refreshes w) \<and>
            \<not> dialogOpen (onSubmit f vals w)) \<and>
         (\<forall>e. insert_fault f = Some e \<longrightarrow>
            table (onSubmit f vals w) = table w \<and>
            console (onSubmit f vals w) = console w @ [Console_error e])"
  using onSubmit_create [OF lookup_error_data [OF assms]] lookup_error_data [OF assms]
  by (auto split: option.splits)

text \<open>
  The lookup fails while the name has a row: a second row of the name, with version 1,
  is created.
\<close>

theorem lookup_error_takes_create_path_witness:
  "error (fst (select_id_eq_name (no_faults\<lparr>lookup_fault := Some refused\<rparr>)
                 (form_name (upload ''home'' ''<svg>2</svg>'')) (opened home_once))) \<noteq> None \<and>
   insert_fault (no_faults\<lparr>lookup_fault := Some refused\<rparr>) = None \<and>
   table (onSubmit (no_faults\<lparr>lookup_fault := Some refused\<rparr>)
            (upload ''home'' ''<svg>2</svg>'') (opened home_once)) =
     home_once @ [\<lparr>screen_id = 2, name = ''home'', html_file = ''<svg>2</svg>'', version = 1,
                   changes = ''''\<rparr>] \<and>
   console (onSubmit (no_faults\<lparr>lookup_fault := Some refused\<rparr>)
              (upload ''home'' ''<svg>2</svg>'') (opened home_once)) =
     [Console_log ''data, status'']"
  using lookup_error_takes_create_path
    [where f = "no_faults\<lparr>lookup_fault := Some refused\<rparr>"
       and vals = "upload ''home'' ''<svg>2</svg>''" and w = "opened home_once"]
  by (simp add: example_defs home_once_def refused_def select_id_eq_name_def)

subsection \<open>The update path\<close>




text \<open>
  C3. On the update path, when the insert of the version row fails, no update is sent,
  the table is unchanged and the submission aborts: the error is logged, the view is
  not refreshed and \<open>dialogOpen\<close> keeps its value. When the insert succeeds and the
  update fails, the inserted row stays in the table (the table is the old one followed
  by the version row), and the submission aborts in the same way.
\<close>

theorem update_path_failures_abort:
  assumes "data (fst (select_id_eq_name f (form_name vals) w)) = Some i"
  shows "(\<forall>e. insert_fault f = Some e \<longrightarrow>
            requests (onSubmit f vals w) =
              requests w @ [Select_id_eq_name (form_name vals), Select_version_desc_limit1,
                Insert_screen (form_name vals) (form_file vals)
                  (newVersion (data (fst (select_version_desc_limit1 f w))))
                  ''TODO: Specify the changes here''] \<and>
            table (onSubmit f vals w) = table w \<and>
            console (onSubmit f vals w) = console w @ [Console_error e] \<and>
            refreshes (onSubmit f vals w) = refreshes w \<and>
            dialogOpen (onSubmit f vals w) = dialogOpen w) \<and>
         (\<forall>e. insert_fault f = None \<and> update_fault f = Some e \<longrightarrow>
            requests (onSubmit f vals w) =
              requests w @ [Select_id_eq_name (form_name vals), Select_version_desc_limit1,
                Insert_screen (form_name vals) (form_file vals)
                  (newVersion (data (fst (select_version_desc_limit1 f w))))
                  ''TODO: Specify the changes here'',
                Update_html_file_eq_id i (form_file vals)] \<and>
            table (onSubmit f vals w) =
              table w @ [\<lparr>screen_id = fresh_id (table w), name = form_name vals,
                          html_file = form_file vals,
                          version = newVersion (data (fst (select_version_desc_limit1 f w))),
                          changes = ''TODO: Specify the changes here''\<rparr>] \<and>
            console (onSubmit f vals w) =
              console w @ [Console_log ''newVersion'', Console_error e] \<and>
            refreshes (onSubmit f vals w) = refreshes w \<and>
            dialogOpen (onSubmit f vals w) = dialogOpen w)"
  using onSubmit_update [OF assms] by (simp add: Let_def)

text \<open>The update fails: the version row is there, the original row still has the old content.\<close>

theorem update_path_failures_abort_witness:
  "data (fst (select_id_eq_name (no_faults\<lparr>update_fault := Some refused\<rparr>)
                (form_name (upload ''home'' ''<svg>2</svg>'')) (opened home_once))) = Some 1 \<and>
   insert_fault (no_faults\<lparr>update_fault := Some refused\<rparr>) = None \<and>
   update_fault (no_faults\<lparr>update_fault := Some refused\<rparr>) = Some refused \<and>
   table (onSubmit (no_faults\<lparr>update_fault := Some refused\<rparr>)
            (upload ''home'' ''<svg>2</svg>'') (opened home_once)) =
     home_once @ [\<lparr>screen_id = 2, name = ''home'', html_file = ''<svg>2</svg>'', version = 2,
                   changes = ''TODO: Specify the changes here''\<rparr>] \<and>
   dialogOpen (onSubmit (no_faults\<lparr>update_fault := Some refused\<rparr>)
                 (upload ''home'' ''<svg>2</svg>'') (opened home_once)) \<and>
   refreshes (onSubmit (no_faults\<lparr>update_fault := Some refused\<rparr>)
                (upload ''home'' ''<svg>2</svg>'') (opened home_once)) = 0"
  using update_path_failures_abort
    [where f = "no_faults\<lparr>update_fault := Some refused\<rparr>"
       and vals = "upload ''home'' ''<svg>2</svg>''" and w = "opened home_once" and i = 1]
  by (simp add: example_defs home_once_def refused_def select_id_eq_name_def select_version_desc_limit1_def
      maybeSingle_def newVersion_def
      round_to_double_exact)



subsection \<open>Several rows of one name\<close>

text \<open>
  C5. The existence check is one lookup by name. The claim has it pick one of several
  rows of that name and go on with the update path. The code does not: two uploads of
  \<open>home\<close> into an empty table leave two rows of that name, and at the third upload the
  lookup returns an error with null data, no version query and no update are sent, a
  row with version 1 is inserted, and \<open>html_file\<close> of the two existing rows keeps the
  content of the second upload.
\<close>

theorem duplicate_names_take_create_path:
  "table (onSubmit no_faults (upload ''home'' ''<svg>2</svg>'')
            (onSubmit no_faults (upload ''home'' ''<svg>1</svg>'') (opened []))) = home_twice \<and>
   fst (select_id_eq_name no_faults ''home'' (opened home_twice)) =
     \<lparr>data = None, error = Some (PostgrestError ''PGRST116'')\<rparr> \<and>
   requests (onSubmit no_faults (upload ''home'' ''<svg>3</svg>'') (opened home_twice)) =
     [Select_id_eq_name ''home'', Insert_screen ''home'' ''<svg>3</svg>'' 1 ''''] \<and>
   map html_file (table (onSubmit no_faults (upload ''home'' ''<svg>3</svg>'')
                           (opened home_twice))) =
     [''<svg>2</svg>'', ''<svg>2</svg>'', ''<svg>3</svg>''] \<and>
   map version (table (onSubmit no_faults (upload ''home'' ''<svg>3</svg>'')
                         (opened home_twice))) = [1, 2, 1]"
  by (simp add: example_defs home_twice_def submit_defs backend_defs maybeSingle_def newVersion_def
      round_to_double_exact)

subsection \<open>What a failure does to the dialog\<close>

text \<open>
  C6, as amended. An error of the insert, and on the update path an error of the
  update, is thrown, caught in \<open>onSubmit\<close> and only logged to the console; the dialog
  then keeps its state and the view is not refreshed. When neither fails, the dialog
  closes, the view is refreshed once and no error is logged. A file that cannot be
  read is caught and logged in \<open>handleFileChange\<close>, which changes nothing else.
\<close>

theorem thrown_errors_are_logged_and_keep_dialog:
  "(\<forall>e. insert_fault f = Some e \<longrightarrow>
      console (onSubmit f vals w) = console w @ [Console_error e] \<and>
      dialogOpen (onSubmit f vals w) = dialogOpen w \<and>
      refreshes (onSubmit f vals w) = refreshes w) \<and>
   (\<forall>e i. data (fst (select_id_eq_name f (form_name vals) w)) = Some i \<and>
      insert_fault f = None \<and> update_fault f = Some e \<longrightarrow>
      console (onSubmit f vals w) = console w @ [Console_log ''newVersion'', Console_error e] \<and>
      dialogOpen (onSubmit f vals w) = dialogOpen w \<and>
      refreshes (onSubmit f vals w) = refreshes w) \<and>
   (insert_fault f = None \<and>
      (data (fst (select_id_eq_name f (form_name vals) w)) = None \<or> update_fault f = None) \<longrightarrow>
      \<not> dialogOpen (onSubmit f vals w) \<and>
      refreshes (onSubmit f vals w) = Suc (refreshes w) \<and>
      (\<forall>e. Console_error e \<notin> set (drop (length (console w)) (console (onSubmit f vals w))))) \<and>
   (\<forall>e. readSvgFile file = Inl e \<longrightarrow> handleFileChange (Some file) w = console_error e w)"
proof (cases "data (fst (select_id_eq_name f (form_name vals) w))")
  case None
  then show ?thesis
    using onSubmit_create [OF None] by (auto simp: handleFileChange_def split: option.splits)
next
  case (Some i)
  then show ?thesis
    using onSubmit_update [OF Some]
    by (auto simp: handleFileChange_def Let_def split: option.splits)
qed

text \<open>The insert of the version row is refused.\<close>

theorem thrown_errors_are_logged_and_keep_dialog_witness:
  "insert_fault (no_faults\<lparr>insert_fault := Some refused\<rparr>) = Some refused \<and>
   console (onSubmit (no_faults\<lparr>insert_fault := Some refused\<rparr>)
              (upload ''home'' ''<svg>2</svg>'') (opened home_once)) = [Console_error refused] \<and>
   dialogOpen (onSubmit (no_faults\<lparr>insert_fault := Some refused\<rparr>)
                 (upload ''home'' ''<svg>2</svg>'') (opened home_once)) \<and>
   refreshes (onSubmit (no_faults\<lparr>insert_fault := Some refused\<rparr>)
                (upload ''home'' ''<svg>2</svg>'') (opened home_once)) = 0"
  using thrown_errors_are_logged_and_keep_dialog
    [where f = "no_faults\<lparr>insert_fault := Some refused\<rparr>"
       and vals = "upload ''home'' ''<svg>2</svg>''" and w = "opened home_once"]
  by (simp add: example_defs home_once_def refused_def)

text \<open>
  C6 as stated fails. When the lookup fails, nothing is caught or logged: the row is
  created, the dialog closes and the view is refreshed. The same holds when the version
  query fails on the update path.
\<close>

theorem dropped_errors_close_dialog_counterexample:
  "lookup_fault (no_faults\<lparr>lookup_fault := Some refused\<rparr>) = Some refused \<and>
   dialogOpen (opened []) \<and>
   \<not> dialogOpen (onSubmit (no_faults\<lparr>lookup_fault := Some refused\<rparr>)
                   (upload ''home'' ''<svg>1</svg>'') (opened [])) \<and>
   refreshes (onSubmit (no_faults\<lparr>lookup_fault := Some refused\<rparr>)
                (upload ''home'' ''<svg>1</svg>'') (opened [])) = 1 \<and>
   console (onSubmit (no_faults\<lparr>lookup_fault := Some refused\<rparr>)
              (upload ''home'' ''<svg>1</svg>'') (opened [])) = [Console_log ''data, status''] \<and>
   version_fault (no_faults\<lparr>version_fault := Some refused\<rparr>) = Some refused \<and>
   \<not> dialogOpen (onSubmit (no_faults\<lparr>version_fault := Some refused\<rparr>)
                   (upload ''home'' ''<svg>2</svg>'') (opened home_once)) \<and>
   refreshes (onSubmit (no_faults\<lparr>version_fault := Some refused\<rparr>)
                (upload ''home'' ''<svg>2</svg>'') (opened home_once)) = 1 \<and>
   console (onSubmit (no_faults\<lparr>version_fault := Some refused\<rparr>)
              (upload ''home'' ''<svg>2</svg>'') (opened home_once)) =
     [Console_log ''newVersion'', Console_log ''data'']"
  by (simp add: example_defs home_once_def refused_def submit_defs backend_defs maybeSingle_def newVersion_def
      round_to_double_exact)

subsection \<open>Validation\<close>

text \<open>
  C8. When the name or the file of the form has fewer than 2 characters, submitting
  sends no request and leaves the table as it is: the only change is that the form
  shows the messages of the schema. For a short name these include, for the field
  \<open>name\<close>, the message 'Name must be at least 2 characters.'.
\<close>

theorem short_fields_block_submission:
  "(length (form_name (form w)) < 2 \<or> length (form_file (form w)) < 2 \<longrightarrow>
      handleSubmit f w = w\<lparr>form_errors := formSchema (form w)\<rparr> \<and>
      requests (handleSubmit f w) = requests w \<and>
      table (handleSubmit f w) = table w) \<and>
   (length (form_name (form w)) < 2 \<longrightarrow>
      (''name'', ''Name must be at least 2 characters.'') \<in> set (form_errors (handleSubmit f w)))"
  by (auto simp: handleSubmit_def formSchema_def split: list.splits)

theorem short_fields_block_submission_witness:
  "length (form_name (form ((opened home_once)\<lparr>form := upload ''h'' ''<svg>2</svg>''\<rparr>))) < 2 \<and>
   requests (handleSubmit no_faults ((opened home_once)\<lparr>form := upload ''h'' ''<svg>2</svg>''\<rparr>)) = [] \<and>
   table (handleSubmit no_faults ((opened home_once)\<lparr>form := upload ''h'' ''<svg>2</svg>''\<rparr>)) =
     home_once \<and>
   form_errors (handleSubmit no_faults ((opened home_once)\<lparr>form := upload ''h'' ''<svg>2</svg>''\<rparr>)) =
     [(''name'', ''Name must be at least 2 characters.'')]"
  using short_fields_block_submission
    [where f = no_faults and w = "(opened home_once)\<lparr>form := upload ''h'' ''<svg>2</svg>''\<rparr>"]
  by (simp add: example_defs home_once_def handleSubmit_def formSchema_def)

subsection \<open>The dropped file\<close>

text \<open>
  C9, as amended. Of the files of one drop at most one is accepted. An accepted file
  is one of the dropped files (with its MIME type completed from its extension when it
  came without one), is not larger than 10 MiB (1024 * 1024 * 10 bytes), and has the
  MIME type \<open>image/svg+xml\<close> or a name ending in \<open>.svg\<close> (both compared in lower case;
  a file reported as \<open>application/x-moz-file\<close> passes the type check as well). A drop
  sends no request and does not touch the table; when no file is accepted it changes
  nothing. An accepted file that is read as text goes, whole, into the form's \<open>file\<close>
  field and into \<open>svgFile\<close>. This holds for every table of common types.
\<close>

theorem drop_accepts_one_small_svg:
  "length (acceptedFiles options common_types files) \<le> 1 \<and>
   (\<forall>file\<in>set (acceptedFiles options common_types files).
      file \<in> set (map (withMimeType common_types) files) \<and>
      file_size file \<le> 1024 * 1024 * 10 \<and>
      (to_lower (file_type file) = ''image/svg+xml'' \<or>
       ends_with (to_lower (file_name file)) ''.svg'' \<or>
       file_type file = ''application/x-moz-file'')) \<and>
   requests (onDrop common_types files w) = requests w \<and>
   table (onDrop common_types files w) = table w \<and>
   (acceptedFiles options common_types files = [] \<longrightarrow> onDrop common_types files w = w) \<and>
   (\<forall>file s. acceptedFiles options common_types files = [file] \<and> file_read file = Read_text s \<longrightarrow>
      form_file (form (onDrop common_types files w)) = s \<and>
      svgFile (onDrop common_types files w) = Some (file_name file, s))"
proof -
  have len: "length (acceptedFiles options common_types files) \<le> 1"
    by (simp add: acceptedFiles_def options_def Let_def)
  have ta: "type_accepted options x \<longleftrightarrow>
            (file_type x = ''application/x-moz-file'' \<or>
             to_lower (file_type x) = ''image/svg+xml'' \<or>
             ends_with (to_lower (file_name x)) ''.svg'')" for x
    by (auto simp: type_accepted_def matches_accept_def accept_attr_def options_def
        to_lower_def Let_def)
  have sub: "set (acceptedFiles options common_types files) \<subseteq>
             {x \<in> set (map (withMimeType common_types) files).
                type_accepted options x \<and> size_accepted options x}"
    by (auto simp: acceptedFiles_def Let_def)
  have acc: "\<forall>file\<in>set (acceptedFiles options common_types files).
      file \<in> set (map (withMimeType common_types) files) \<and>
      file_size file \<le> 1024 * 1024 * 10 \<and>
      (to_lower (file_type file) = ''image/svg+xml'' \<or>
       ends_with (to_lower (file_name file)) ''.svg'' \<or>
       file_type file = ''application/x-moz-file'')"
  proof
    fix x :: File
    assume "x \<in> set (acceptedFiles options common_types files)"
    with sub have f: "x \<in> set (map (withMimeType common_types) files)"
      and t: "type_accepted options x" and s: "size_accepted options x" by auto
    from s have "file_size x \<le> 1024 * 1024 * 10"
      by (simp add: size_accepted_def options_def)
    with f t ta show "x \<in> set (map (withMimeType common_types) files) \<and>
      file_size x \<le> 1024 * 1024 * 10 \<and>
      (to_lower (file_type x) = ''image/svg+xml'' \<or>
       ends_with (to_lower (file_name x)) ''.svg'' \<or>
       file_type x = ''application/x-moz-file'')" by blast
  qed
  have fr: "requests (handleFileChange fo w) = requests w \<and> table (handleFileChange fo w) = table w"
    for fo
    by (simp add: handleFileChange_def console_log_def console_error_def
        split: option.splits sum.splits)
  have none: "acceptedFiles options common_types files = [] \<longrightarrow> onDrop common_types files w = w"
    by (simp add: onDrop_def handleFileChange_def)
  have one: "\<forall>file s. acceptedFiles options common_types files = [file] \<and>
      file_read file = Read_text s \<longrightarrow>
      form_file (form (onDrop common_types files w)) = s \<and>
      svgFile (onDrop common_types files w) = Some (file_name file, s)"
    by (simp add: onDrop_def handleFileChange_def readSvgFile_def console_log_def)
  show ?thesis
    using len acc
      fr [of "case acceptedFiles options common_types files of [] \<Rightarrow> None | f # _ \<Rightarrow> Some f"]
      none one unfolding onDrop_def by blast
qed

text \<open>
  A file of exactly 10 MiB that comes without a MIME type gets the type of its
  extension, is accepted and read; one byte more and it is rejected.
\<close>

theorem drop_accepts_one_small_svg_witness:
  "acceptedFiles options svg_and_png
     [\<lparr>file_name = ''home.svg'', file_type = '''', file_size = 10485760,
       file_read = Read_text ''<svg>1</svg>''\<rparr>] =
     [\<lparr>file_name = ''home.svg'', file_type = ''image/svg+xml'', file_size = 10485760,
       file_read = Read_text ''<svg>1</svg>''\<rparr>] \<and>
   form_file (form (onDrop svg_and_png
     [\<lparr>file_name = ''home.svg'', file_type = '''', file_size = 10485760,
       file_read = Read_text ''<svg>1</svg>''\<rparr>] (opened []))) = ''<svg>1</svg>'' \<and>
   acceptedFiles options svg_and_png
     [\<lparr>file_name = ''home.svg'', file_type = '''', file_size = 10485761,
       file_read = Read_text ''<svg>1</svg>''\<rparr>] = []"
  using drop_accepts_one_small_svg
    [where files = "[\<lparr>file_name = ''home.svg'', file_type = '''',
                      file_size = 10485760, file_read = Read_text ''<svg>1</svg>''\<rparr>]"
       and common_types = svg_and_png and w = "opened []"]
  by (simp add: acceptedFiles_def type_accepted_def size_accepted_def matches_accept_def
      accept_attr_def options_def to_lower_def ends_with_def onDrop_def handleFileChange_def
      readSvgFile_def console_log_def Let_def example_defs withMimeType_def extension_def
      svg_and_png_def)

text \<open>
  C9 as stated fails: a file whose name ends in \<open>.svg\<close> is accepted and read although
  its MIME type is \<open>text/plain\<close>, not \<open>image/svg+xml\<close>; the handler gets it with that
  type.
\<close>

theorem svg_extension_accepted_counterexample:
  "acceptedFiles options svg_and_png
     [\<lparr>file_name = ''home.svg'', file_type = ''text/plain'', file_size = 20,
       file_read = Read_text ''<svg>1</svg>''\<rparr>] =
     [\<lparr>file_name = ''home.svg'', file_type = ''text/plain'', file_size = 20,
       file_read = Read_text ''<svg>1</svg>''\<rparr>] \<and>
   map file_type (acceptedFiles options svg_and_png
     [\<lparr>file_name = ''home.svg'', file_type = ''text/plain'', file_size = 20,
       file_read = Read_text ''<svg>1</svg>''\<rparr>]) \<noteq> [''image/svg+xml''] \<and>
   form_file (form (onDrop svg_and_png
     [\<lparr>file_name = ''home.svg'', file_type = ''text/plain'', file_size = 20,
       file_read = Read_text ''<svg>1</svg>''\<rparr>] (opened []))) = ''<svg>1</svg>''"
  by (simp add: acceptedFiles_def type_accepted_def size_accepted_def matches_accept_def
      accept_attr_def options_def to_lower_def ends_with_def onDrop_def handleFileChange_def
      readSvgFile_def console_log_def Let_def example_defs withMimeType_def extension_def
      svg_and_png_def)

end
